theory Spec2Isabelle
  imports Main "HOL-Library.Sublist"
begin

section \<open>Host-language strings and values\<close>

text \<open>
  The two tool adapters, fetch-output (\<^verbatim>\<open>BashOutputInvocation\<close>,
  \<^verbatim>\<open>BashOutputTool\<close>) and terminate (\<^verbatim>\<open>kill-shell.ts\<close>), are
  TypeScript. Their strings are modelled as \<^typ>\<open>string\<close>;
  a character stands for one code unit below 256. An optional property of a parameter
  object (\<^verbatim>\<open>filter?: string\<close>, or a required one that the caller left out) is a
  \<^typ>\<open>string option\<close>, \<^const>\<open>None\<close> being \<^verbatim>\<open>undefined\<close>.
\<close>

abbreviation nl :: string where
  "nl \<equiv> [CHR 0x0A]"

text \<open>Interpolation \<^verbatim>\<open>${x}\<close> of a possibly absent string in a template literal.\<close>

definition template :: "string option \<Rightarrow> string" where
  "template x = (case x of None \<Rightarrow> ''undefined'' | Some s \<Rightarrow> s)"

text \<open>
  The white space that \<^verbatim>\<open>String.prototype.trim\<close> removes, among the code units
  below 256: TAB, LF, VT, FF, CR, SPACE and NBSP.
\<close>

definition isWhiteSpace :: "char \<Rightarrow> bool" where
  "isWhiteSpace c \<longleftrightarrow>
     c = CHR 0x09 \<or> c = CHR 0x0A \<or> c = CHR 0x0B \<or> c = CHR 0x0C \<or> c = CHR 0x0D \<or>
     c = CHR 0x20 \<or> c = CHR 0xA0"

definition trim :: "string \<Rightarrow> string" where
  "trim s = rev (dropWhile isWhiteSpace (rev (dropWhile isWhiteSpace s)))"

text \<open>\<^verbatim>\<open>Array.prototype.join\<close> on an array of strings.\<close>

fun join :: "string \<Rightarrow> string list \<Rightarrow> string" where
  "join sep [] = []"
| "join sep [x] = x"
| "join sep (x # y # ys) = x @ sep @ join sep (y # ys)"

text \<open>
  Decimal rendering of a non-negative integer, as \<^verbatim>\<open>${n}\<close> gives it for an array
  length or a process id.
\<close>

definition digit_char :: "nat \<Rightarrow> char" where
  "digit_char d = ''0123456789'' ! (d mod 10)"

fun string_of_nat :: "nat \<Rightarrow> string" where
  "string_of_nat n =
     (if n < 10 then [digit_char n] else string_of_nat (n div 10) @ [digit_char (n mod 10)])"

declare string_of_nat.simps [simp del]

text \<open>
  The constructor \<^verbatim>\<open>new RegExp(pattern)\<close> belongs to the host, not to the
  repository: it is a parameter of the model. It either throws, and the model keeps the
  \<^verbatim>\<open>message\<close> of the error (\<^const>\<open>Inl\<close>), or yields an object whose
  \<^verbatim>\<open>test\<close> method (no flags, hence no state between calls) is a predicate on lines.
\<close>

type_synonym RegExp = "string \<Rightarrow> string + (string \<Rightarrow> bool)"

definition compiles :: "RegExp \<Rightarrow> string \<Rightarrow> bool" where
  "compiles regExp pattern = (case regExp pattern of Inl _ \<Rightarrow> False | Inr _ \<Rightarrow> True)"

text \<open>
  One fact about the host is used below: the empty pattern is a regular expression
  (\<^verbatim>\<open>new RegExp('')\<close> is \<^verbatim>\<open>/(?:)/\<close>).
\<close>

definition empty_pattern_compiles :: "RegExp \<Rightarrow> bool" where
  "empty_pattern_compiles regExp = compiles regExp []"


section \<open>The background task manager, as the adapters see it\<close>

text \<open>
  Modelled from the spec: the module \<^verbatim>\<open>services/backgroundTaskManager.js\<close> is not
  among the sources. Section 3 of the specification gives the task record and its four
  statuses; the adapters read \<^verbatim>\<open>status\<close>, \<^verbatim>\<open>pid\<close> and \<^verbatim>\<open>command\<close>.
\<close>

datatype TaskStatus = Running | Completed | Killed | Failed

fun status_str :: "TaskStatus \<Rightarrow> string" where
  "status_str Running = ''running''"
| "status_str Completed = ''completed''"
| "status_str Killed = ''killed''"
| "status_str Failed = ''failed''"

record Task =
  task_id :: string
  command :: string
  pid :: "nat option"
  status :: TaskStatus
  exitCode :: "int option"
  outputBuffer :: "string list"

text \<open>
  Modelled from the spec: the three operations of the manager that the adapters call,
  over a manager state \<^typ>\<open>'s\<close>. By section 4.5, \<^verbatim>\<open>getTask\<close> is a pure lookup and
  \<^verbatim>\<open>getOutput\<close> reads the buffer from an offset, \<^const>\<open>None\<close> standing for
  not-found; neither changes the state. \<^verbatim>\<open>killTask\<close> answers a boolean and may
  change the state; the adapter wraps it in \<^verbatim>\<open>try\<close>, so it may also throw, and
  \<^const>\<open>Inl\<close> carries what \<^verbatim>\<open>getErrorMessage\<close> makes of the thrown value. The key
  is the property as it arrives at run time.
\<close>

record 's TaskManager =
  getTask :: "'s \<Rightarrow> string option \<Rightarrow> Task option"
  getOutput :: "'s \<Rightarrow> string option \<Rightarrow> nat \<Rightarrow> string list option"
  killTask :: "'s \<Rightarrow> string option \<Rightarrow> (string + bool) \<times> 's"

text \<open>What an adapter did to its collaborators, in order.\<close>

datatype call =
    GetTask "string option"
  | GetOutput "string option" nat
  | KillTask "string option"
  | NewRegExp string

record ToolResult =
  llmContent :: string
  returnDisplay :: string

record 's run =
  result :: ToolResult
  calls :: "call list"
  manager_state :: 's


section \<open>Fetch-output adapter\<close>

record BashOutputParams =
  bash_id :: "string option"
  filter_opt :: "string option"

text \<open>\<^verbatim>\<open>BashOutputInvocation.getConfirmationDetails\<close>: \<^verbatim>\<open>false\<close> is \<^const>\<open>None\<close>.\<close>

record ToolExecuteConfirmationDetails =
  details_type :: string
  title :: string
  details_command :: string
  rootCommand :: string

definition BashOutput_getConfirmationDetails ::
  "'s TaskManager \<Rightarrow> BashOutputParams \<Rightarrow> 's \<Rightarrow> ToolExecuteConfirmationDetails option" where
  "BashOutput_getConfirmationDetails taskManager params s = None"

text \<open>
  The formatting part of \<^verbatim>\<open>BashOutputInvocation.execute\<close> (from
  \<^verbatim>\<open>// Format output\<close> on). \<^verbatim>\<open>task.pid ? ... : ''\<close> tests truthiness, so a
  pid of 0 gives the empty text like an absent one, and the PID line is pushed when the
  text is not empty. \<open>filtered\<close> is the truthiness of \<^verbatim>\<open>this.params.filter\<close>.
\<close>

definition header_lines :: "Task \<Rightarrow> string list \<Rightarrow> string list \<Rightarrow> bool \<Rightarrow> string list" where
  "header_lines task allOutput filteredOutput filtered =
     (let statusText = ''Status: '' @ status_str (status task);
          pidText = (case pid task of
                       None \<Rightarrow> []
                     | Some p \<Rightarrow> if p \<noteq> 0 then ''PID: '' @ string_of_nat p else []);
          lines0 = [statusText];
          lines1 = (if pidText \<noteq> [] then lines0 @ [pidText] else lines0);
          lines2 = lines1 @ [''Lines buffered: '' @ string_of_nat (length allOutput)]
      in if filtered
         then lines2 @ [''Matched lines: '' @ string_of_nat (length filteredOutput)]
         else lines2)"

definition format_output :: "Task \<Rightarrow> string list \<Rightarrow> string list \<Rightarrow> bool \<Rightarrow> ToolResult" where
  "format_output task allOutput filteredOutput filtered =
     (let outputText = join nl filteredOutput;
          lines = header_lines task allOutput filteredOutput filtered
      in \<lparr>llmContent = join nl [join nl lines, [], ''Output:'', outputText],
          returnDisplay = join '' | '' lines @ nl @ outputText\<rparr>)"

text \<open>
  \<^verbatim>\<open>BashOutputInvocation.execute\<close>. \<^verbatim>\<open>if (this.params.filter)\<close> is false for an
  absent filter and for the empty string.
\<close>

definition BashOutput_execute ::
  "RegExp \<Rightarrow> 's TaskManager \<Rightarrow> BashOutputParams \<Rightarrow> 's \<Rightarrow> 's run" where
  "BashOutput_execute regExp taskManager params s =
     (case getTask taskManager s (bash_id params) of
        None \<Rightarrow>
          \<lparr>result =
             \<lparr>llmContent = ''Background task not found: '' @ template (bash_id params) @
                             ''. Task may have been cleaned up.'',
              returnDisplay = ''Error: Task '' @ template (bash_id params) @ '' not found.''\<rparr>,
           calls = [GetTask (bash_id params)],
           manager_state = s\<rparr>
      | Some task \<Rightarrow>
          (case getOutput taskManager s (bash_id params) 0 of
             None \<Rightarrow>
               \<lparr>result =
                  \<lparr>llmContent = ''Failed to retrieve output for task '' @
                                  template (bash_id params) @ ''.'',
                   returnDisplay = ''Error: Failed to retrieve output.''\<rparr>,
                calls = [GetTask (bash_id params), GetOutput (bash_id params) 0],
                manager_state = s\<rparr>
           | Some allOutput \<Rightarrow>
               (case filter_opt params of
                  None \<Rightarrow>
                    \<lparr>result = format_output task allOutput allOutput False,
                     calls = [GetTask (bash_id params), GetOutput (bash_id params) 0],
                     manager_state = s\<rparr>
                | Some f \<Rightarrow>
                    if f = [] then
                      \<lparr>result = format_output task allOutput allOutput False,
                       calls = [GetTask (bash_id params), GetOutput (bash_id params) 0],
                       manager_state = s\<rparr>
                    else
                      (case regExp f of
                         Inl message \<Rightarrow>
                           \<lparr>result =
                              \<lparr>llmContent = ''Invalid filter regex: '' @ f @ ''. Error: '' @
                                              message,
                               returnDisplay = ''Error: Invalid filter pattern.''\<rparr>,
                            calls = [GetTask (bash_id params), GetOutput (bash_id params) 0,
                                     NewRegExp f],
                            manager_state = s\<rparr>
                       | Inr test \<Rightarrow>
                           \<lparr>result = format_output task allOutput (filter test allOutput) True,
                            calls = [GetTask (bash_id params), GetOutput (bash_id params) 0,
                                     NewRegExp f],
                            manager_state = s\<rparr>))))"

text \<open>
  \<^verbatim>\<open>BashOutputTool.validateToolParamValues\<close>: \<^const>\<open>None\<close> is \<^verbatim>\<open>null\<close>.
  \<^verbatim>\<open>!params.bash_id\<close> holds for an absent and for an empty \<^verbatim>\<open>bash_id\<close>.
\<close>

definition BashOutput_validateToolParamValues ::
  "RegExp \<Rightarrow> BashOutputParams \<Rightarrow> string option" where
  "BashOutput_validateToolParamValues regExp params =
     (case bash_id params of
        None \<Rightarrow> Some ''bash_id is required and cannot be empty.''
      | Some b \<Rightarrow>
          if b = [] \<or> length (trim b) = 0
          then Some ''bash_id is required and cannot be empty.''
          else
            (case filter_opt params of
               None \<Rightarrow> None
             | Some f \<Rightarrow>
                 if f = [] then None
                 else
                   (case regExp f of
                      Inl message \<Rightarrow> Some (''Invalid regex pattern in filter: '' @ message)
                    | Inr _ \<Rightarrow> None)))"






section \<open>Terminate adapter\<close>

record KillShellParams =
  shell_id :: "string option"

text \<open>\<^verbatim>\<open>KillShellInvocation.getConfirmationDetails\<close>; \<^verbatim>\<open>onConfirm\<close> does nothing.\<close>

definition KillShell_getConfirmationDetails ::
  "'s TaskManager \<Rightarrow> KillShellParams \<Rightarrow> 's \<Rightarrow> ToolExecuteConfirmationDetails option" where
  "KillShell_getConfirmationDetails taskManager params s =
     (case getTask taskManager s (shell_id params) of
        None \<Rightarrow> None
      | Some task \<Rightarrow>
          Some \<lparr>details_type = ''exec'',
                title = ''Confirm Terminate Background Task'',
                details_command = command task,
                rootCommand = ''kill''\<rparr>)"

text \<open>\<^verbatim>\<open>KillShellInvocation.execute\<close>.\<close>

definition KillShell_execute :: "'s TaskManager \<Rightarrow> KillShellParams \<Rightarrow> 's \<Rightarrow> 's run" where
  "KillShell_execute taskManager params s =
     (case getTask taskManager s (shell_id params) of
        None \<Rightarrow>
          \<lparr>result =
             \<lparr>llmContent = ''Background task not found: '' @ template (shell_id params) @
                             ''. Task may have already completed or been cleaned up.'',
              returnDisplay = ''Error: Task '' @ template (shell_id params) @ '' not found.''\<rparr>,
           calls = [GetTask (shell_id params)],
           manager_state = s\<rparr>
      | Some task \<Rightarrow>
          if status_str (status task) \<noteq> ''running'' then
            \<lparr>result =
               \<lparr>llmContent = ''Task '' @ template (shell_id params) @
                               '' is not running (status: '' @ status_str (status task) @
                               ''). No need to kill.'',
                returnDisplay = ''Task already '' @ status_str (status task) @ ''.''\<rparr>,
             calls = [GetTask (shell_id params)],
             manager_state = s\<rparr>
          else
            (case killTask taskManager s (shell_id params) of
               (Inr killed, s') \<Rightarrow>
                 if \<not> killed then
                   \<lparr>result =
                      \<lparr>llmContent = ''Failed to kill task '' @ template (shell_id params) @
                                      ''. Task may have already terminated.'',
                       returnDisplay = ''Failed to kill task.''\<rparr>,
                    calls = [GetTask (shell_id params), KillTask (shell_id params)],
                    manager_state = s'\<rparr>
                 else
                   \<lparr>result =
                      \<lparr>llmContent = ''Successfully terminated background task '' @
                                      template (shell_id params) @ '' (command: '' @
                                      command task @ '')'',
                       returnDisplay = ''Task '' @ template (shell_id params) @
                                       '' terminated.''\<rparr>,
                    calls = [GetTask (shell_id params), KillTask (shell_id params)],
                    manager_state = s'\<rparr>
             | (Inl errorMessage, s') \<Rightarrow>
                 \<lparr>result =
                    \<lparr>llmContent = ''Error terminating background task '' @
                                    template (shell_id params) @ '': '' @ errorMessage,
                     returnDisplay = ''Error: '' @ errorMessage\<rparr>,
                  calls = [GetTask (shell_id params), KillTask (shell_id params)],
                  manager_state = s'\<rparr>))"

text \<open>\<^verbatim>\<open>KillShellTool.validateToolParamValues\<close>.\<close>

definition KillShell_validateToolParamValues :: "KillShellParams \<Rightarrow> string option" where
  "KillShell_validateToolParamValues params =
     (case shell_id params of
        None \<Rightarrow> Some ''shell_id is required and cannot be empty.''
      | Some b \<Rightarrow>
          if b = [] \<or> length (trim b) = 0
          then Some ''shell_id is required and cannot be empty.''
          else None)"


section \<open>A registry-backed manager and a sample of the host's regular expressions\<close>

text \<open>
  Modelled from the spec: the manager of sections 4.4 and 4.5 over a registry keyed by
  task identifier. No task is registered under an absent key. \<open>deliver\<close> says whether
  the termination signal reaches a live process (section 4.3); a successful kill moves
  the task from \<open>running\<close> to \<open>killed\<close>.
\<close>

type_synonym registry = "string \<rightharpoonup> Task"

definition registry_getTask :: "registry \<Rightarrow> string option \<Rightarrow> Task option" where
  "registry_getTask reg key = (case key of None \<Rightarrow> None | Some i \<Rightarrow> reg i)"

definition registry_getOutput :: "registry \<Rightarrow> string option \<Rightarrow> nat \<Rightarrow> string list option" where
  "registry_getOutput reg key offset =
     (case registry_getTask reg key of
        None \<Rightarrow> None
      | Some task \<Rightarrow> Some (drop offset (outputBuffer task)))"

definition registry_killTask ::
  "(Task \<Rightarrow> bool) \<Rightarrow> registry \<Rightarrow> string option \<Rightarrow> (string + bool) \<times> registry" where
  "registry_killTask deliver reg key =
     (case registry_getTask reg key of
        None \<Rightarrow> (Inr False, reg)
      | Some task \<Rightarrow>
          if status task = Running \<and> deliver task
          then (Inr True, reg(task_id task \<mapsto> task\<lparr>status := Killed\<rparr>))
          else (Inr False, reg))"

definition registry_manager :: "(Task \<Rightarrow> bool) \<Rightarrow> registry TaskManager" where
  "registry_manager deliver =
     \<lparr>getTask = registry_getTask,
      getOutput = registry_getOutput,
      killTask = registry_killTask deliver\<rparr>"

text \<open>
  The host's \<^verbatim>\<open>RegExp\<close> on the three patterns the examples use: the empty pattern
  matches every line, \<^verbatim>\<open>a$\<close> the lines that end in \<^verbatim>\<open>a\<close>, and an unbalanced
  parenthesis is a syntax error. Any other pattern is outside the sample and is reported
  as such.
\<close>

definition sample_RegExp :: RegExp where
  "sample_RegExp pattern =
     (if pattern = [] then Inr (\<lambda>line. True)
      else if pattern = ''a$'' then Inr (\<lambda>line. line \<noteq> [] \<and> last line = CHR ''a'')
      else if pattern = ''('' then Inl ''Invalid regular expression: /(/: Unterminated group''
      else Inl ''pattern outside the sample'')"

definition sample_task :: Task where
  "sample_task =
     \<lparr>task_id = ''bg-1'', command = ''npm run dev'', pid = Some 4242, status = Running,
      exitCode = None, outputBuffer = [''alpha'', ''beta'', ''gamma'']\<rparr>"

definition sample_registry :: registry where
  "sample_registry = [''bg-1'' \<mapsto> sample_task]"

definition finished_task :: Task where
  "finished_task =
     \<lparr>task_id = ''bg-2'', command = ''make test'', pid = Some 977, status = Completed,
      exitCode = Some 0, outputBuffer = [''ok'']\<rparr>"

definition finished_registry :: registry where
  "finished_registry = [''bg-2'' \<mapsto> finished_task]"


section \<open>The report in the specification's words\<close>

text \<open>
  Section 6 of the specification describes the report of a successful fetch: a task
  status line, an optional PID line, the total buffered line count, the matched line
  count if the output was filtered, and the output text joined by newlines. The verbose
  form puts a blank line and \<^verbatim>\<open>Output:\<close> between header and text; the compact form
  joins the header with \<^verbatim>\<open> | \<close>.
\<close>

definition report_header :: "TaskStatus \<Rightarrow> nat option \<Rightarrow> nat \<Rightarrow> nat option \<Rightarrow> string list" where
  "report_header st pid_line buffered matched =
     [''Status: '' @ status_str st] @
     (case pid_line of None \<Rightarrow> [] | Some p \<Rightarrow> [''PID: '' @ string_of_nat p]) @
     [''Lines buffered: '' @ string_of_nat buffered] @
     (case matched of None \<Rightarrow> [] | Some m \<Rightarrow> [''Matched lines: '' @ string_of_nat m])"

definition structured_report ::
  "TaskStatus \<Rightarrow> nat option \<Rightarrow> nat \<Rightarrow> nat option \<Rightarrow> string list \<Rightarrow> ToolResult" where
  "structured_report st pid_line buffered matched out =
     \<lparr>llmContent = join nl (report_header st pid_line buffered matched) @ nl @ nl @
                     ''Output:'' @ nl @ join nl out,
      returnDisplay = join '' | '' (report_header st pid_line buffered matched) @ nl @
                      join nl out\<rparr>"

text \<open>The subsequence of the lines that a pattern matches, in the original order.\<close>

definition matching_lines :: "RegExp \<Rightarrow> string \<Rightarrow> string list \<Rightarrow> string list" where
  "matching_lines regExp pattern ls =
     (case regExp pattern of Inl _ \<Rightarrow> [] | Inr test \<Rightarrow> filter test ls)"

text \<open>The pid that gets a line: a present one other than 0.\<close>

definition shown_pid :: "nat option \<Rightarrow> nat option" where
  "shown_pid p = (case p of None \<Rightarrow> None | Some n \<Rightarrow> if n = 0 then None else Some n)"

text \<open>The filter that is applied: a supplied one other than the empty string.\<close>

definition applied_filter :: "BashOutputParams \<Rightarrow> string option" where
  "applied_filter params =
     (case filter_opt params of None \<Rightarrow> None | Some f \<Rightarrow> if f = [] then None else Some f)"

text \<open>A required identifier that is missing, empty, or white space only.\<close>

definition missing_or_blank :: "string option \<Rightarrow> bool" where
  "missing_or_blank x =
     (case x of None \<Rightarrow> True | Some b \<Rightarrow> b = [] \<or> list_all isWhiteSpace b)"

definition always_deliver :: "Task \<Rightarrow> bool" where
  "always_deliver task = True"

definition never_deliver :: "Task \<Rightarrow> bool" where
  "never_deliver task = False"

text \<open>A manager whose \<^verbatim>\<open>killTask\<close> throws.\<close>

definition throwing_killTask :: "registry \<Rightarrow> string option \<Rightarrow> (string + bool) \<times> registry" where
  "throwing_killTask reg key = (Inl ''kill EPERM'', reg)"

definition throwing_manager :: "registry TaskManager" where
  "throwing_manager =
     \<lparr>getTask = registry_getTask,
      getOutput = registry_getOutput,
      killTask = throwing_killTask\<rparr>"



section \<open>Auxiliary facts\<close>

lemma trim_empty_iff: "length (trim s) = 0 \<longleftrightarrow> (\<forall>c\<in>set s. isWhiteSpace c)"
proof
  assume "length (trim s) = 0"
  then have a: "\<forall>c\<in>set (dropWhile isWhiteSpace s). isWhiteSpace c"
    by (simp add: trim_def)
  have "dropWhile isWhiteSpace s = []"
  proof (cases "dropWhile isWhiteSpace s")
    case Nil
    then show ?thesis .
  next
    case (Cons x xs)
    then have "\<not> isWhiteSpace x"
      using hd_dropWhile[of isWhiteSpace s] by simp
    with a Cons show ?thesis by simp
  qed
  then show "\<forall>c\<in>set s. isWhiteSpace c" by simp
next
  assume "\<forall>c\<in>set s. isWhiteSpace c"
  then have "dropWhile isWhiteSpace s = []" by simp
  then have "trim s = []"
    unfolding trim_def by (simp only: rev.simps dropWhile.simps)
  then show "length (trim s) = 0" by simp
qed

lemma trim_Nil_iff: "trim s = [] \<longleftrightarrow> (\<forall>c\<in>set s. isWhiteSpace c)"
  using trim_empty_iff[of s] by simp

lemma rejected_id_iff:
  "(b = [] \<or> length (trim b) = 0) \<longleftrightarrow> missing_or_blank (Some b)"
  by (auto simp: trim_Nil_iff missing_or_blank_def list_all_iff)

lemma join_Cons: "join sep (x # xs) = x @ (if xs = [] then [] else sep @ join sep xs)"
  by (cases xs) simp_all

lemma status_str_running: "status_str st = ''running'' \<longleftrightarrow> st = Running"
  by (cases st) simp_all

text \<open>
  The header that the code builds by pushing onto an array is the header of the
  specification, for the pid that gets a line.
\<close>

lemma header_lines_eq:
  "header_lines task allOutput filteredOutput filtered =
     report_header (status task) (shown_pid (pid task)) (length allOutput)
       (if filtered then Some (length filteredOutput) else None)"
  by (cases "pid task")
     (simp_all add: header_lines_def report_header_def shown_pid_def Let_def)

lemma format_output_eq:
  "format_output task allOutput filteredOutput filtered =
     structured_report (status task) (shown_pid (pid task)) (length allOutput)
       (if filtered then Some (length filteredOutput) else None) filteredOutput"
  by (simp add: format_output_def structured_report_def Let_def header_lines_eq)

lemma header_lines_Cons:
  "\<exists>rest. header_lines task allOutput filteredOutput filtered =
      (''Status: '' @ status_str (status task)) # rest"
  by (simp add: header_lines_def Let_def)

lemma llmContent_format_output:
  "\<exists>rest. llmContent (format_output task allOutput filteredOutput filtered) =
      ''Status: '' @ rest"
proof -
  obtain rest where r: "header_lines task allOutput filteredOutput filtered =
      (''Status: '' @ status_str (status task)) # rest"
    using header_lines_Cons by blast
  show ?thesis
    by (simp add: format_output_def Let_def r join_Cons del: join.simps)
qed

lemma returnDisplay_format_output:
  "\<exists>rest. returnDisplay (format_output task allOutput filteredOutput filtered) =
      ''Status: '' @ rest"
proof -
  obtain rest where r: "header_lines task allOutput filteredOutput filtered =
      (''Status: '' @ status_str (status task)) # rest"
    using header_lines_Cons by blast
  show ?thesis
    by (simp add: format_output_def Let_def r join_Cons del: join.simps)
qed

text \<open>The fetch-output adapter only reads: it never kills and never changes the manager.\<close>

lemma BashOutput_execute_reads_only:
  "manager_state (BashOutput_execute regExp tm p s) = s \<and>
   KillTask k \<notin> set (calls (BashOutput_execute regExp tm p s))"
  by (simp add: BashOutput_execute_def split: option.splits sum.splits)

lemmas sample_defs =
  registry_manager_def registry_getTask_def registry_getOutput_def registry_killTask_def
  sample_registry_def sample_task_def finished_registry_def finished_task_def
  always_deliver_def never_deliver_def throwing_manager_def throwing_killTask_def
  sample_RegExp_def template_def

lemmas report_defs =
  structured_report_def report_header_def shown_pid_def matching_lines_def
  string_of_nat.simps digit_char_def

lemma sample_getTask:
  "getTask (registry_manager deliver) sample_registry (Some ''bg-1'') = Some sample_task"
  by (simp add: registry_manager_def registry_getTask_def sample_registry_def)

lemma sample_getOutput:
  "getOutput (registry_manager deliver) sample_registry (Some ''bg-1'') 0 =
     Some [''alpha'', ''beta'', ''gamma'']"
  by (simp add: registry_manager_def registry_getTask_def registry_getOutput_def
        sample_registry_def sample_task_def)

lemma finished_getTask:
  "getTask (registry_manager deliver) finished_registry (Some ''bg-2'') = Some finished_task"
  by (simp add: registry_manager_def registry_getTask_def finished_registry_def)

lemma finished_getOutput:
  "getOutput (registry_manager deliver) finished_registry (Some ''bg-2'') 0 = Some [''ok'']"
  by (simp add: registry_manager_def registry_getTask_def registry_getOutput_def
        finished_registry_def finished_task_def)

lemma sample_empty_pattern: "empty_pattern_compiles sample_RegExp"
  by (simp add: empty_pattern_compiles_def compiles_def sample_RegExp_def)


section \<open>Fetch-output: an invalid filter\<close>

text \<open>
  The branch of \<^verbatim>\<open>execute\<close> for a filter that does not compile, which parameters
  that passed validation never reach.
\<close>

lemma execute_invalid_filter_branch:
  assumes "filter_opt p = Some f" and "f \<noteq> []" and "regExp f = Inl message"
    and "getTask tm s (bash_id p) = Some task"
    and "getOutput tm s (bash_id p) 0 = Some L"
  shows "result (BashOutput_execute regExp tm p s) =
           \<lparr>llmContent = ''Invalid filter regex: '' @ f @ ''. Error: '' @ message,
            returnDisplay = ''Error: Invalid filter pattern.''\<rparr>"
  using assms by (simp add: BashOutput_execute_def)




section \<open>Fetch-output: a valid filter\<close>

text \<open>
  Claim C2, as the code has it. When the task exists with buffered lines \<open>L\<close> and the
  supplied filter is a non-empty pattern that compiles, the report carries the status
  line, the PID line, \<^verbatim>\<open>Lines buffered:\<close> with the length of \<open>L\<close>,
  \<^verbatim>\<open>Matched lines:\<close> with the number of lines of \<open>L\<close> that the pattern matches, and
  as output exactly those lines, in their original order.
\<close>

theorem filtered_output_is_matching_subsequence:
  assumes "getTask tm s (bash_id p) = Some task"
    and "getOutput tm s (bash_id p) 0 = Some L"
    and "filter_opt p = Some f" and "f \<noteq> []" and "compiles regExp f"
  shows "result (BashOutput_execute regExp tm p s) =
           structured_report (status task) (shown_pid (pid task)) (length L)
             (Some (length (matching_lines regExp f L))) (matching_lines regExp f L)"
  using assms
  by (auto simp: BashOutput_execute_def format_output_eq matching_lines_def compiles_def
           split: sum.splits)

text \<open>
  The pattern \<^verbatim>\<open>a$\<close> on the lines alpha, beta, gamma: each of the three ends in
  \<^verbatim>\<open>a\<close>, so all three are returned, 3 matched of 3 buffered.
\<close>

theorem filtered_output_is_matching_subsequence_witness:
  "result (BashOutput_execute sample_RegExp (registry_manager always_deliver)
             \<lparr>bash_id = Some ''bg-1'', filter_opt = Some ''a$''\<rparr> sample_registry) =
     \<lparr>llmContent = ''Status: running'' @ nl @ ''PID: 4242'' @ nl @ ''Lines buffered: 3'' @ nl @
                     ''Matched lines: 3'' @ nl @ nl @ ''Output:'' @ nl @
                     ''alpha'' @ nl @ ''beta'' @ nl @ ''gamma'',
      returnDisplay = ''Status: running | PID: 4242 | Lines buffered: 3 | Matched lines: 3'' @
                      nl @ ''alpha'' @ nl @ ''beta'' @ nl @ ''gamma''\<rparr>"
proof -
  let ?p = "\<lparr>bash_id = Some ''bg-1'', filter_opt = Some ''a$''\<rparr>"
  have h1: "getTask (registry_manager always_deliver) sample_registry (bash_id ?p) =
              Some sample_task"
    by (simp add: sample_getTask)
  have h2: "getOutput (registry_manager always_deliver) sample_registry (bash_id ?p) 0 =
              Some [''alpha'', ''beta'', ''gamma'']"
    by (simp add: sample_getOutput)
  have h3: "filter_opt ?p = Some ''a$''" by simp
  have h4: "''a$'' \<noteq> []" by simp
  have h5: "compiles sample_RegExp ''a$''"
    by (simp add: compiles_def sample_RegExp_def)
  show ?thesis
    using filtered_output_is_matching_subsequence[OF h1 h2 h3 h4 h5]
    by (simp add: sample_task_def sample_RegExp_def report_defs)
qed

text \<open>
  Against claim C2 as stated: for \<^verbatim>\<open>a$\<close> on alpha, beta, gamma the report is not the
  one with the two lines alpha and gamma and a matched count of 2; and for the empty
  string, a valid pattern, the report has no matched count at all.
\<close>

theorem a_dollar_example_counterexample:
  "compiles sample_RegExp ''a$'' \<and>
   matching_lines sample_RegExp ''a$'' [''alpha'', ''beta'', ''gamma''] =
     [''alpha'', ''beta'', ''gamma''] \<and>
   result (BashOutput_execute sample_RegExp (registry_manager always_deliver)
             \<lparr>bash_id = Some ''bg-1'', filter_opt = Some ''a$''\<rparr> sample_registry) =
     structured_report Running (Some 4242) 3 (Some 3) [''alpha'', ''beta'', ''gamma''] \<and>
   result (BashOutput_execute sample_RegExp (registry_manager always_deliver)
             \<lparr>bash_id = Some ''bg-1'', filter_opt = Some ''a$''\<rparr> sample_registry) \<noteq>
     structured_report Running (Some 4242) 3 (Some 2) [''alpha'', ''gamma''] \<and>
   compiles sample_RegExp [] \<and>
   result (BashOutput_execute sample_RegExp (registry_manager always_deliver)
             \<lparr>bash_id = Some ''bg-2'', filter_opt = Some []\<rparr> finished_registry) \<noteq>
     structured_report Completed (Some 977) 1
       (Some (length (matching_lines sample_RegExp [] [''ok''])))
       (matching_lines sample_RegExp [] [''ok''])"
  by (simp add: BashOutput_execute_def sample_defs compiles_def format_output_eq report_defs)


section \<open>Fetch-output: the structure of the report\<close>

text \<open>
  Claim C3, as the code has it. For a successful fetch (task found, output retrieved,
  filter absent, empty, or compiling) the report consists, in this order, of the status
  line, a PID line exactly when the task has a pid other than 0, the buffered line
  count, a matched line count exactly when a non-empty filter was supplied, and the
  output lines (those matching the non-empty filter, all of them otherwise) joined by
  newlines.
\<close>

theorem fetch_report_structure:
  assumes "getTask tm s (bash_id p) = Some task"
    and "getOutput tm s (bash_id p) 0 = Some L"
    and "\<forall>f. applied_filter p = Some f \<longrightarrow> compiles regExp f"
  shows "result (BashOutput_execute regExp tm p s) =
           (case applied_filter p of
              None \<Rightarrow> structured_report (status task) (shown_pid (pid task)) (length L) None L
            | Some f \<Rightarrow>
                structured_report (status task) (shown_pid (pid task)) (length L)
                  (Some (length (matching_lines regExp f L))) (matching_lines regExp f L))"
  using assms
  by (auto simp: BashOutput_execute_def format_output_eq matching_lines_def compiles_def
         applied_filter_def split: sum.splits option.splits)

text \<open>A finished task fetched without filter, and a running one fetched with a filter.\<close>

theorem fetch_report_structure_witness:
  "result (BashOutput_execute sample_RegExp (registry_manager always_deliver)
             \<lparr>bash_id = Some ''bg-2'', filter_opt = None\<rparr> finished_registry) =
     \<lparr>llmContent = ''Status: completed'' @ nl @ ''PID: 977'' @ nl @ ''Lines buffered: 1'' @ nl @
                     nl @ ''Output:'' @ nl @ ''ok'',
      returnDisplay = ''Status: completed | PID: 977 | Lines buffered: 1'' @ nl @ ''ok''\<rparr> \<and>
   result (BashOutput_execute sample_RegExp (registry_manager always_deliver)
             \<lparr>bash_id = Some ''bg-1'', filter_opt = Some ''a$''\<rparr> sample_registry) =
     structured_report Running (Some 4242) 3 (Some 3) [''alpha'', ''beta'', ''gamma'']"
proof -
  let ?p = "\<lparr>bash_id = Some ''bg-2'', filter_opt = None\<rparr>"
  let ?q = "\<lparr>bash_id = Some ''bg-1'', filter_opt = Some ''a$''\<rparr>"
  have h1: "getTask (registry_manager always_deliver) finished_registry (bash_id ?p) =
              Some finished_task"
    by (simp add: finished_getTask)
  have h2: "getOutput (registry_manager always_deliver) finished_registry (bash_id ?p) 0 =
              Some [''ok'']"
    by (simp add: finished_getOutput)
  have h3: "\<forall>f. applied_filter ?p = Some f \<longrightarrow> compiles sample_RegExp f"
    by (simp add: applied_filter_def)
  have k1: "getTask (registry_manager always_deliver) sample_registry (bash_id ?q) =
              Some sample_task"
    by (simp add: sample_getTask)
  have k2: "getOutput (registry_manager always_deliver) sample_registry (bash_id ?q) 0 =
              Some [''alpha'', ''beta'', ''gamma'']"
    by (simp add: sample_getOutput)
  have k3: "\<forall>f. applied_filter ?q = Some f \<longrightarrow> compiles sample_RegExp f"
    by (simp add: applied_filter_def compiles_def sample_RegExp_def)
  show ?thesis
    using fetch_report_structure[OF h1 h2 h3] fetch_report_structure[OF k1 k2 k3]
    by (simp add: applied_filter_def finished_task_def sample_task_def sample_RegExp_def
          report_defs)
qed

text \<open>
  Against claim C3 as stated: the empty string supplied as filter gives a report without
  a matched line count.
\<close>

theorem empty_filter_no_matched_count_counterexample:
  "filter_opt \<lparr>bash_id = Some ''bg-1'', filter_opt = Some []\<rparr> \<noteq> None \<and>
   result (BashOutput_execute sample_RegExp (registry_manager always_deliver)
             \<lparr>bash_id = Some ''bg-1'', filter_opt = Some []\<rparr> sample_registry) =
     structured_report Running (Some 4242) 3 None [''alpha'', ''beta'', ''gamma''] \<and>
   result (BashOutput_execute sample_RegExp (registry_manager always_deliver)
             \<lparr>bash_id = Some ''bg-1'', filter_opt = Some []\<rparr> sample_registry) \<noteq>
     structured_report Running (Some 4242) 3 (Some 3) [''alpha'', ''beta'', ''gamma'']"
  by (simp add: BashOutput_execute_def sample_defs format_output_eq report_defs)


section \<open>Terminate: a task that is not running\<close>

text \<open>
  Claim C4. When the task exists and its status is not \<open>running\<close>, terminate returns
  the result \<^verbatim>\<open>Task <id> is not running (status: <status>). No need to kill.\<close>
  (display \<^verbatim>\<open>Task already <status>.\<close>); its only call is the lookup, so
  \<^verbatim>\<open>killTask\<close> is not invoked, and the manager's state, hence the task, is
  unchanged.
\<close>

theorem kill_not_running_is_noop:
  assumes "getTask tm s (shell_id p) = Some task" and "status task \<noteq> Running"
  shows "result (KillShell_execute tm p s) =
           \<lparr>llmContent = ''Task '' @ template (shell_id p) @ '' is not running (status: '' @
                           status_str (status task) @ ''). No need to kill.'',
            returnDisplay = ''Task already '' @ status_str (status task) @ ''.''\<rparr> \<and>
         calls (KillShell_execute tm p s) = [GetTask (shell_id p)] \<and>
         manager_state (KillShell_execute tm p s) = s \<and>
         getTask tm (manager_state (KillShell_execute tm p s)) (shell_id p) = Some task"
  using assms by (simp add: KillShell_execute_def status_str_running)

text \<open>A completed task, with a manager that would deliver the signal if asked.\<close>

theorem kill_not_running_is_noop_witness:
  "status finished_task \<noteq> Running \<and>
   result (KillShell_execute (registry_manager always_deliver) \<lparr>shell_id = Some ''bg-2''\<rparr>
             finished_registry) =
     \<lparr>llmContent = ''Task bg-2 is not running (status: completed). No need to kill.'',
      returnDisplay = ''Task already completed.''\<rparr> \<and>
   calls (KillShell_execute (registry_manager always_deliver) \<lparr>shell_id = Some ''bg-2''\<rparr>
            finished_registry) = [GetTask (Some ''bg-2'')] \<and>
   manager_state (KillShell_execute (registry_manager always_deliver)
                    \<lparr>shell_id = Some ''bg-2''\<rparr> finished_registry) = finished_registry"
proof -
  let ?p = "\<lparr>shell_id = Some ''bg-2''\<rparr>"
  have h1: "getTask (registry_manager always_deliver) finished_registry (shell_id ?p) =
              Some finished_task"
    by (simp add: finished_getTask)
  have h2: "status finished_task \<noteq> Running"
    by (simp add: finished_task_def)
  show ?thesis
    using h2 kill_not_running_is_noop[OF h1 h2]
    by (simp add: template_def finished_task_def)
qed


section \<open>A task that is not found\<close>

text \<open>
  Claim C5. When the identifier \<open>i\<close> has no task, fetch-output and terminate each
  return a result (a value, nothing is thrown) whose verbose text is
  \<^verbatim>\<open>Background task not found: \<close>, then \<open>i\<close> itself, then a hint, and whose
  display is \<^verbatim>\<open>Error: Task \<close>, \<open>i\<close>, \<^verbatim>\<open> not found.\<close> An identifier that
  was left out is rendered \<^verbatim>\<open>undefined\<close>. The verbose text begins with
  \<^verbatim>\<open>Background task not found: \<close> in this case only, which tells it from every
  other outcome.
\<close>

theorem not_found_is_reported:
  "(bash_id p = Some i \<longrightarrow> getTask tm s (Some i) = None \<longrightarrow>
      result (BashOutput_execute regExp tm p s) =
        \<lparr>llmContent = ''Background task not found: '' @ i @
                        ''. Task may have been cleaned up.'',
         returnDisplay = ''Error: Task '' @ i @ '' not found.''\<rparr>) \<and>
   (shell_id q = Some j \<longrightarrow> getTask tm s (Some j) = None \<longrightarrow>
      result (KillShell_execute tm q s) =
        \<lparr>llmContent = ''Background task not found: '' @ j @
                        ''. Task may have already completed or been cleaned up.'',
         returnDisplay = ''Error: Task '' @ j @ '' not found.''\<rparr>) \<and>
   (bash_id p = None \<longrightarrow> getTask tm s None = None \<longrightarrow>
      result (BashOutput_execute regExp tm p s) =
        \<lparr>llmContent = ''Background task not found: undefined. Task may have been cleaned up.'',
         returnDisplay = ''Error: Task undefined not found.''\<rparr>) \<and>
   (shell_id q = None \<longrightarrow> getTask tm s None = None \<longrightarrow>
      result (KillShell_execute tm q s) =
        \<lparr>llmContent = ''Background task not found: undefined. Task may have already completed or been cleaned up.'',
         returnDisplay = ''Error: Task undefined not found.''\<rparr>) \<and>
   (prefix ''Background task not found: ''
      (llmContent (result (BashOutput_execute regExp tm p s)))
      \<longleftrightarrow> getTask tm s (bash_id p) = None) \<and>
   (prefix ''Background task not found: '' (llmContent (result (KillShell_execute tm q s)))
      \<longleftrightarrow> getTask tm s (shell_id q) = None)"
proof (intro conjI)
  show "bash_id p = Some i \<longrightarrow> getTask tm s (Some i) = None \<longrightarrow>
      result (BashOutput_execute regExp tm p s) =
        \<lparr>llmContent = ''Background task not found: '' @ i @
                        ''. Task may have been cleaned up.'',
         returnDisplay = ''Error: Task '' @ i @ '' not found.''\<rparr>"
    by (simp add: BashOutput_execute_def template_def)
  show "shell_id q = Some j \<longrightarrow> getTask tm s (Some j) = None \<longrightarrow>
      result (KillShell_execute tm q s) =
        \<lparr>llmContent = ''Background task not found: '' @ j @
                        ''. Task may have already completed or been cleaned up.'',
         returnDisplay = ''Error: Task '' @ j @ '' not found.''\<rparr>"
    by (simp add: KillShell_execute_def template_def)
  show "bash_id p = None \<longrightarrow> getTask tm s None = None \<longrightarrow>
      result (BashOutput_execute regExp tm p s) =
        \<lparr>llmContent = ''Background task not found: undefined. Task may have been cleaned up.'',
         returnDisplay = ''Error: Task undefined not found.''\<rparr>"
    by (simp add: BashOutput_execute_def template_def)
  show "shell_id q = None \<longrightarrow> getTask tm s None = None \<longrightarrow>
      result (KillShell_execute tm q s) =
        \<lparr>llmContent = ''Background task not found: undefined. Task may have already completed or been cleaned up.'',
         returnDisplay = ''Error: Task undefined not found.''\<rparr>"
    by (simp add: KillShell_execute_def template_def)
  show "prefix ''Background task not found: ''
          (llmContent (result (BashOutput_execute regExp tm p s)))
      \<longleftrightarrow> getTask tm s (bash_id p) = None"
  proof (cases "getTask tm s (bash_id p)")
    case None
    then show ?thesis by (simp add: BashOutput_execute_def)
  next
    case (Some task)
    have "\<not> prefix ''Background task not found: '' (llmContent (format_output task a f b))"
      for a f b
    proof -
      obtain rest where "llmContent (format_output task a f b) = ''Status: '' @ rest"
        using llmContent_format_output by blast
      then show ?thesis by simp
    qed
    with Some show ?thesis
      by (simp add: BashOutput_execute_def split: option.splits sum.splits)
  qed
  show "prefix ''Background task not found: '' (llmContent (result (KillShell_execute tm q s)))
      \<longleftrightarrow> getTask tm s (shell_id q) = None"
    by (simp add: KillShell_execute_def split: option.splits sum.splits prod.splits)
qed

text \<open>
  Two identifiers that were never registered, one for each operation, and a registered
  one.
\<close>

theorem not_found_is_reported_witness:
  "result (BashOutput_execute sample_RegExp (registry_manager always_deliver)
             \<lparr>bash_id = Some ''gone'', filter_opt = None\<rparr> sample_registry) =
     \<lparr>llmContent = ''Background task not found: gone. Task may have been cleaned up.'',
      returnDisplay = ''Error: Task gone not found.''\<rparr> \<and>
   result (KillShell_execute (registry_manager always_deliver) \<lparr>shell_id = Some ''bg-7''\<rparr>
             sample_registry) =
     \<lparr>llmContent =
        ''Background task not found: bg-7. Task may have already completed or been cleaned up.'',
      returnDisplay = ''Error: Task bg-7 not found.''\<rparr> \<and>
   \<not> prefix ''Background task not found: ''
       (llmContent (result (BashOutput_execute sample_RegExp (registry_manager always_deliver)
                              \<lparr>bash_id = Some ''bg-1'', filter_opt = None\<rparr> sample_registry)))"
proof -
  let ?m = "registry_manager always_deliver"
  let ?p = "\<lparr>bash_id = Some ''gone'', filter_opt = None\<rparr>"
  let ?p1 = "\<lparr>bash_id = Some ''bg-1'', filter_opt = None\<rparr>"
  let ?q = "\<lparr>shell_id = Some ''bg-7''\<rparr>"
  have i1: "bash_id ?p = Some ''gone''" and i2: "shell_id ?q = Some ''bg-7''"
    by simp_all
  have h1: "getTask ?m sample_registry (Some ''gone'') = None"
    by (simp add: registry_manager_def registry_getTask_def sample_registry_def)
  have h2: "getTask ?m sample_registry (Some ''bg-7'') = None"
    by (simp add: registry_manager_def registry_getTask_def sample_registry_def)
  have h3: "getTask ?m sample_registry (bash_id ?p1) \<noteq> None"
    by (simp add: sample_getTask)
  note t = not_found_is_reported[of ?p "''gone''" ?m sample_registry sample_RegExp ?q
             "''bg-7''"]
  note u = not_found_is_reported[of ?p1 "''bg-1''" ?m sample_registry sample_RegExp ?q
             "''bg-7''"]
  have a: "result (BashOutput_execute sample_RegExp ?m ?p sample_registry) =
     \<lparr>llmContent = ''Background task not found: gone. Task may have been cleaned up.'',
      returnDisplay = ''Error: Task gone not found.''\<rparr>"
    using t[THEN conjunct1, rule_format, OF i1 h1] by simp
  have b: "result (KillShell_execute ?m ?q sample_registry) =
     \<lparr>llmContent =
        ''Background task not found: bg-7. Task may have already completed or been cleaned up.'',
      returnDisplay = ''Error: Task bg-7 not found.''\<rparr>"
    using t[THEN conjunct2, THEN conjunct1, rule_format, OF i2 h2] by simp
  have c: "\<not> prefix ''Background task not found: ''
       (llmContent (result (BashOutput_execute sample_RegExp ?m ?p1 sample_registry)))"
    using h3 u[THEN conjunct2, THEN conjunct2, THEN conjunct2, THEN conjunct2, THEN conjunct1]
    by simp
  from a b c show ?thesis by blast
qed


section \<open>Validation of the parameters\<close>

text \<open>
  Claim C6. Fetch-output's validation returns a message exactly when \<^verbatim>\<open>bash_id\<close>
  is missing, empty or white space only, or a supplied filter does not compile as a
  regular expression; terminate's validation returns a message exactly when
  \<^verbatim>\<open>shell_id\<close> is missing, empty or white space only. Otherwise they return no
  error. The host's constructor is assumed to accept the empty pattern, as it does.
\<close>

theorem validation_rejects_exactly:
  assumes "empty_pattern_compiles regExp"
  shows "(BashOutput_validateToolParamValues regExp p \<noteq> None \<longleftrightarrow>
            missing_or_blank (bash_id p) \<or>
            (\<exists>f. filter_opt p = Some f \<and> \<not> compiles regExp f)) \<and>
         (KillShell_validateToolParamValues q \<noteq> None \<longleftrightarrow> missing_or_blank (shell_id q))"
proof
  show "BashOutput_validateToolParamValues regExp p \<noteq> None \<longleftrightarrow>
            missing_or_blank (bash_id p) \<or>
            (\<exists>f. filter_opt p = Some f \<and> \<not> compiles regExp f)"
  proof (cases "bash_id p")
    case None
    then show ?thesis
      by (simp add: BashOutput_validateToolParamValues_def missing_or_blank_def)
  next
    case (Some b)
    show ?thesis
    proof (cases "missing_or_blank (Some b)")
      case True
      with Some show ?thesis
        using rejected_id_iff[of b]
        by (simp add: BashOutput_validateToolParamValues_def)
    next
      case False
      then have nb: "\<not> (b = [] \<or> length (trim b) = 0)"
        using rejected_id_iff[of b] by simp
      show ?thesis
      proof (cases "filter_opt p")
        case None
        with Some nb False show ?thesis
          by (simp add: BashOutput_validateToolParamValues_def)
      next
        case (Some f)
        with \<open>bash_id p = Some b\<close> nb False assms show ?thesis
          by (auto simp: BashOutput_validateToolParamValues_def compiles_def
                empty_pattern_compiles_def split: sum.splits)
      qed
    qed
  qed
next
  show "KillShell_validateToolParamValues q \<noteq> None \<longleftrightarrow> missing_or_blank (shell_id q)"
  proof (cases "shell_id q")
    case None
    then show ?thesis
      by (simp add: KillShell_validateToolParamValues_def missing_or_blank_def)
  next
    case (Some b)
    then show ?thesis
      using rejected_id_iff[of b]
      by (simp add: KillShell_validateToolParamValues_def)
  qed
qed

text \<open>
  A good identifier with a compiling filter passes; so does one with the empty filter; a
  bad filter, a blank \<^verbatim>\<open>bash_id\<close> (space and tab) and a missing \<^verbatim>\<open>shell_id\<close>
  are rejected.
\<close>

theorem validation_rejects_exactly_witness:
  "empty_pattern_compiles sample_RegExp \<and>
   BashOutput_validateToolParamValues sample_RegExp
     \<lparr>bash_id = Some ''bg-1'', filter_opt = Some ''a$''\<rparr> = None \<and>
   BashOutput_validateToolParamValues sample_RegExp
     \<lparr>bash_id = Some ''bg-1'', filter_opt = Some []\<rparr> = None \<and>
   BashOutput_validateToolParamValues sample_RegExp
     \<lparr>bash_id = Some ''bg-1'', filter_opt = Some ''(''\<rparr> \<noteq> None \<and>
   BashOutput_validateToolParamValues sample_RegExp
     \<lparr>bash_id = Some [CHR 0x20, CHR 0x09], filter_opt = None\<rparr> \<noteq> None \<and>
   KillShell_validateToolParamValues \<lparr>shell_id = None\<rparr> \<noteq> None \<and>
   KillShell_validateToolParamValues \<lparr>shell_id = Some ''bg-1''\<rparr> = None"
proof -
  have c: "compiles sample_RegExp ''a$''" "compiles sample_RegExp []"
    "\<not> compiles sample_RegExp ''(''"
    by (simp_all add: compiles_def sample_RegExp_def)
  have m: "\<not> missing_or_blank (Some ''bg-1'')" "missing_or_blank (Some [CHR 0x20, CHR 0x09])"
    "missing_or_blank None"
    by (simp_all add: missing_or_blank_def isWhiteSpace_def)
  show ?thesis
    using sample_empty_pattern c m
      validation_rejects_exactly[OF sample_empty_pattern,
        of "\<lparr>bash_id = Some ''bg-1'', filter_opt = Some ''a$''\<rparr>" "\<lparr>shell_id = None\<rparr>"]
      validation_rejects_exactly[OF sample_empty_pattern,
        of "\<lparr>bash_id = Some ''bg-1'', filter_opt = Some []\<rparr>" "\<lparr>shell_id = Some ''bg-1''\<rparr>"]
      validation_rejects_exactly[OF sample_empty_pattern,
        of "\<lparr>bash_id = Some ''bg-1'', filter_opt = Some ''(''\<rparr>" "\<lparr>shell_id = None\<rparr>"]
      validation_rejects_exactly[OF sample_empty_pattern,
        of "\<lparr>bash_id = Some [CHR 0x20, CHR 0x09], filter_opt = None\<rparr>" "\<lparr>shell_id = None\<rparr>"]
    by simp
qed


section \<open>Confirmation\<close>

text \<open>
  Claim C7. Fetch-output never asks for confirmation. Terminate asks for none when the
  task is not found, and for an existing task returns confirmation details of type
  \<^verbatim>\<open>exec\<close> that carry the task's original command and the root command
  \<^verbatim>\<open>kill\<close>.
\<close>

theorem confirmation_only_for_terminate:
  "BashOutput_getConfirmationDetails tm p s = None \<and>
   (getTask tm s (shell_id q) = None \<longrightarrow> KillShell_getConfirmationDetails tm q s = None) \<and>
   (\<forall>task. getTask tm s (shell_id q) = Some task \<longrightarrow>
      KillShell_getConfirmationDetails tm q s =
        Some \<lparr>details_type = ''exec'', title = ''Confirm Terminate Background Task'',
              details_command = command task, rootCommand = ''kill''\<rparr>)"
  by (simp add: BashOutput_getConfirmationDetails_def KillShell_getConfirmationDetails_def)

text \<open>The running sample task, and an identifier without a task.\<close>

theorem confirmation_only_for_terminate_witness:
  "KillShell_getConfirmationDetails (registry_manager always_deliver)
     \<lparr>shell_id = Some ''bg-1''\<rparr> sample_registry =
     Some \<lparr>details_type = ''exec'', title = ''Confirm Terminate Background Task'',
           details_command = ''npm run dev'', rootCommand = ''kill''\<rparr> \<and>
   KillShell_getConfirmationDetails (registry_manager always_deliver)
     \<lparr>shell_id = Some ''gone''\<rparr> sample_registry = None \<and>
   BashOutput_getConfirmationDetails (registry_manager always_deliver)
     \<lparr>bash_id = Some ''bg-1'', filter_opt = None\<rparr> sample_registry = None"
proof -
  let ?m = "registry_manager always_deliver"
  have h1: "getTask ?m sample_registry (shell_id \<lparr>shell_id = Some ''bg-1''\<rparr>) =
              Some sample_task"
    by (simp add: sample_getTask)
  have h2: "getTask ?m sample_registry (shell_id \<lparr>shell_id = Some ''gone''\<rparr>) = None"
    by (simp add: registry_manager_def registry_getTask_def sample_registry_def)
  have c: "command sample_task = ''npm run dev''"
    by (simp add: sample_task_def)
  show ?thesis
    using h1 h2 c
      confirmation_only_for_terminate[of ?m "\<lparr>bash_id = Some ''bg-1'', filter_opt = None\<rparr>"
        sample_registry "\<lparr>shell_id = Some ''bg-1''\<rparr>"]
      confirmation_only_for_terminate[of ?m "\<lparr>bash_id = Some ''bg-1'', filter_opt = None\<rparr>"
        sample_registry "\<lparr>shell_id = Some ''gone''\<rparr>"]
    by simp
qed


section \<open>Terminate: a running task\<close>

text \<open>
  Claim C8. When the task exists and is running, terminate calls \<^verbatim>\<open>killTask\<close>
  once. If it answers true, the result is
  \<^verbatim>\<open>Successfully terminated background task <id> (command: <command>)\<close>, with the
  task's original command; if it answers false, the result is the failure message
  \<^verbatim>\<open>Failed to kill task <id>. Task may have already terminated.\<close>; if it throws,
  the error is caught and its message returned as a result. In every case
  \<^verbatim>\<open>execute\<close> returns a result, and the manager is left as \<^verbatim>\<open>killTask\<close> left
  it.
\<close>

theorem kill_running_reports_outcome:
  assumes "getTask tm s (shell_id p) = Some task" and "status task = Running"
    and "killTask tm s (shell_id p) = (outcome, s')"
  shows "result (KillShell_execute tm p s) =
           (case outcome of
              Inr True \<Rightarrow>
                \<lparr>llmContent = ''Successfully terminated background task '' @
                                template (shell_id p) @ '' (command: '' @ command task @ '')'',
                 returnDisplay = ''Task '' @ template (shell_id p) @ '' terminated.''\<rparr>
            | Inr False \<Rightarrow>
                \<lparr>llmContent = ''Failed to kill task '' @ template (shell_id p) @
                                ''. Task may have already terminated.'',
                 returnDisplay = ''Failed to kill task.''\<rparr>
            | Inl errorMessage \<Rightarrow>
                \<lparr>llmContent = ''Error terminating background task '' @
                                template (shell_id p) @ '': '' @ errorMessage,
                 returnDisplay = ''Error: '' @ errorMessage\<rparr>) \<and>
         calls (KillShell_execute tm p s) = [GetTask (shell_id p), KillTask (shell_id p)] \<and>
         manager_state (KillShell_execute tm p s) = s'"
  using assms by (simp add: KillShell_execute_def split: sum.splits bool.splits)

text \<open>
  The running sample task with a signal that is delivered, one that is not, and a
  manager whose \<^verbatim>\<open>killTask\<close> throws.
\<close>

theorem kill_running_reports_outcome_witness:
  "status sample_task = Running \<and>
   result (KillShell_execute (registry_manager always_deliver) \<lparr>shell_id = Some ''bg-1''\<rparr>
             sample_registry) =
     \<lparr>llmContent = ''Successfully terminated background task bg-1 (command: npm run dev)'',
      returnDisplay = ''Task bg-1 terminated.''\<rparr> \<and>
   manager_state (KillShell_execute (registry_manager always_deliver)
                    \<lparr>shell_id = Some ''bg-1''\<rparr> sample_registry) =
     sample_registry(''bg-1'' \<mapsto> sample_task\<lparr>status := Killed\<rparr>) \<and>
   result (KillShell_execute (registry_manager never_deliver) \<lparr>shell_id = Some ''bg-1''\<rparr>
             sample_registry) =
     \<lparr>llmContent = ''Failed to kill task bg-1. Task may have already terminated.'',
      returnDisplay = ''Failed to kill task.''\<rparr> \<and>
   result (KillShell_execute throwing_manager \<lparr>shell_id = Some ''bg-1''\<rparr> sample_registry) =
     \<lparr>llmContent = ''Error terminating background task bg-1: kill EPERM'',
      returnDisplay = ''Error: kill EPERM''\<rparr>"
proof -
  let ?p = "\<lparr>shell_id = Some ''bg-1''\<rparr>"
  have r: "status sample_task = Running" "command sample_task = ''npm run dev''"
    "task_id sample_task = ''bg-1''"
    by (simp_all add: sample_task_def)
  have a1: "getTask (registry_manager always_deliver) sample_registry (shell_id ?p) =
              Some sample_task"
    by (simp add: sample_getTask)
  have a3: "killTask (registry_manager always_deliver) sample_registry (shell_id ?p) =
              (Inr True, sample_registry(''bg-1'' \<mapsto> sample_task\<lparr>status := Killed\<rparr>))"
    using a1 r
    by (simp add: registry_manager_def registry_killTask_def always_deliver_def)
  have n1: "getTask (registry_manager never_deliver) sample_registry (shell_id ?p) =
              Some sample_task"
    by (simp add: sample_getTask)
  have n3: "killTask (registry_manager never_deliver) sample_registry (shell_id ?p) =
              (Inr False, sample_registry)"
    using n1 r
    by (simp add: registry_manager_def registry_killTask_def never_deliver_def)
  have t1: "getTask throwing_manager sample_registry (shell_id ?p) = Some sample_task"
    by (simp add: throwing_manager_def registry_getTask_def sample_registry_def)
  have t3: "killTask throwing_manager sample_registry (shell_id ?p) =
              (Inl ''kill EPERM'', sample_registry)"
    by (simp add: throwing_manager_def throwing_killTask_def)
  show ?thesis
    using r kill_running_reports_outcome[OF a1 r(1) a3]
      kill_running_reports_outcome[OF n1 r(1) n3]
      kill_running_reports_outcome[OF t1 r(1) t3]
    by (simp add: template_def)
qed


section \<open>Validated parameters and the invalid-filter branch\<close>

text \<open>
  Claim C9. For parameters that pass fetch-output's validation, \<^verbatim>\<open>execute\<close> never
  returns the invalid-filter result: its verbose text does not begin with
  \<^verbatim>\<open>Invalid filter regex: \<close>, its display is not
  \<^verbatim>\<open>Error: Invalid filter pattern.\<close>, and every pattern it compiles compiles.
\<close>

theorem validated_filter_never_invalid:
  assumes "BashOutput_validateToolParamValues regExp p = None"
  shows "\<not> prefix ''Invalid filter regex: ''
             (llmContent (result (BashOutput_execute regExp tm p s))) \<and>
         returnDisplay (result (BashOutput_execute regExp tm p s)) \<noteq>
           ''Error: Invalid filter pattern.'' \<and>
         (\<forall>f. NewRegExp f \<in> set (calls (BashOutput_execute regExp tm p s)) \<longrightarrow>
              compiles regExp f)"
proof -
  have ok: "\<exists>test. regExp f = Inr test" if "filter_opt p = Some f" and "f \<noteq> []" for f
    using assms that
    by (auto simp: BashOutput_validateToolParamValues_def
             split: option.splits if_splits sum.splits)
  have a: "\<not> prefix ''Invalid filter regex: '' (llmContent (format_output task a f b))"
    for task a f b
  proof -
    obtain rest where "llmContent (format_output task a f b) = ''Status: '' @ rest"
      using llmContent_format_output by blast
    then show ?thesis by simp
  qed
  have b: "returnDisplay (format_output task a f b) \<noteq> ''Error: Invalid filter pattern.''"
    for task a f b
  proof -
    obtain rest where "returnDisplay (format_output task a f b) = ''Status: '' @ rest"
      using returnDisplay_format_output by blast
    then show ?thesis by simp
  qed
  show ?thesis
    using ok a b
    by (auto simp: BashOutput_execute_def compiles_def split: option.splits sum.splits)
qed

text \<open>Validated parameters with a filter, run on the sample task.\<close>

theorem validated_filter_never_invalid_witness:
  "BashOutput_validateToolParamValues sample_RegExp
     \<lparr>bash_id = Some ''bg-1'', filter_opt = Some ''a$''\<rparr> = None \<and>
   \<not> prefix ''Invalid filter regex: ''
       (llmContent (result (BashOutput_execute sample_RegExp (registry_manager always_deliver)
          \<lparr>bash_id = Some ''bg-1'', filter_opt = Some ''a$''\<rparr> sample_registry))) \<and>
   returnDisplay (result (BashOutput_execute sample_RegExp (registry_manager always_deliver)
          \<lparr>bash_id = Some ''bg-1'', filter_opt = Some ''a$''\<rparr> sample_registry)) \<noteq>
     ''Error: Invalid filter pattern.''"
proof -
  have h: "BashOutput_validateToolParamValues sample_RegExp
             \<lparr>bash_id = Some ''bg-1'', filter_opt = Some ''a$''\<rparr> = None"
    by (simp add: BashOutput_validateToolParamValues_def sample_RegExp_def trim_def
          isWhiteSpace_def)
  show ?thesis
    using h validated_filter_never_invalid[OF h, of "registry_manager always_deliver"
                 sample_registry]
    by simp
qed


section \<open>Fetch-output: the empty filter\<close>

text \<open>
  Claim C10. A filter that is the empty string is treated as absent: the run is the
  same as with no filter at all, no regular expression is constructed, and for an
  existing task with retrievable output the report holds every buffered line and has no
  matched line count.
\<close>

theorem empty_filter_is_absent:
  "BashOutput_execute regExp tm (p\<lparr>filter_opt := Some []\<rparr>) s =
     BashOutput_execute regExp tm (p\<lparr>filter_opt := None\<rparr>) s \<and>
   (\<forall>task L. getTask tm s (bash_id p) = Some task \<longrightarrow>
      getOutput tm s (bash_id p) 0 = Some L \<longrightarrow>
      result (BashOutput_execute regExp tm (p\<lparr>filter_opt := Some []\<rparr>) s) =
        structured_report (status task) (shown_pid (pid task)) (length L) None L \<and>
      NewRegExp [] \<notin> set (calls (BashOutput_execute regExp tm (p\<lparr>filter_opt := Some []\<rparr>) s)))"
  by (simp add: BashOutput_execute_def format_output_eq split: option.splits)

text \<open>The completed sample task fetched with the empty filter.\<close>

theorem empty_filter_is_absent_witness:
  "result (BashOutput_execute sample_RegExp (registry_manager always_deliver)
             \<lparr>bash_id = Some ''bg-2'', filter_opt = Some []\<rparr> finished_registry) =
     \<lparr>llmContent = ''Status: completed'' @ nl @ ''PID: 977'' @ nl @ ''Lines buffered: 1'' @ nl @
                     nl @ ''Output:'' @ nl @ ''ok'',
      returnDisplay = ''Status: completed | PID: 977 | Lines buffered: 1'' @ nl @ ''ok''\<rparr>"
proof -
  let ?p = "\<lparr>bash_id = Some ''bg-2'', filter_opt = Some ''a$''\<rparr>"
  have h1: "getTask (registry_manager always_deliver) finished_registry (bash_id ?p) =
              Some finished_task"
    by (simp add: finished_getTask)
  have h2: "getOutput (registry_manager always_deliver) finished_registry (bash_id ?p) 0 =
              Some [''ok'']"
    by (simp add: finished_getOutput)
  have "result (BashOutput_execute sample_RegExp (registry_manager always_deliver)
                  (?p\<lparr>filter_opt := Some []\<rparr>) finished_registry) =
          structured_report (status finished_task) (shown_pid (pid finished_task))
            (length [''ok'']) None [''ok'']"
    using empty_filter_is_absent[of sample_RegExp "registry_manager always_deliver" ?p
        finished_registry, THEN conjunct2, rule_format, OF h1 h2]
    by (simp only: simp_thms)
  then show ?thesis
    by (simp add: finished_task_def report_defs)
qed

end
